theory Spec2Isabelle
  imports Main "HOL-Library.AList"
begin

section \<open>Values, errors and key declarations\<close>

text \<open>
  The configuration engine of \<^verbatim>\<open>archivebox/config.py\<close> resolves every declared key
  from the process environment, the config file and a default, and writes user edits
  back to the file. Python values that a configuration key can take are modelled by
  \<open>pyval\<close>. A Python \<^verbatim>\<open>str\<close> is a HOL string (one \<open>char\<close> per character; the
  configuration text the source handles is ASCII).
\<close>

datatype pyval =
    PyNone
  | PyBool bool
  | PyInt int
  | PyStr string
  | PyList "pyval list"

text \<open>
  Every exception the modelled code can raise is a value. \<open>ValueError\<close> carries the
  offending raw string. \<open>NotModelled\<close> is not a Python exception: it marks the JSON
  texts that lie outside the fragment of \<^verbatim>\<open>json.loads\<close> described below, and no
  statement of this theory draws a conclusion from it.
\<close>

datatype error =
    ValueError string
  | JSONDecodeError
  | UnboundLocalError
  | AssertionError
  | IndexError
  | KeyError string
  | TypeError
  | PyException
  | ConfigParserError
  | FileNotFoundError
  | NotModelled

text \<open>A \<^verbatim>\<open>Dict[str, str]\<close> (environment, flattened config file, assignments) and the
  snapshot \<^verbatim>\<open>ConfigDict\<close>, both in insertion order as Python dicts are.\<close>

type_synonym dict = "(string \<times> string) list"
type_synonym config = "(string \<times> pyval) list"

text \<open>The \<^verbatim>\<open>'type'\<close> field of a declaration: \<^verbatim>\<open>bool\<close>, \<^verbatim>\<open>str\<close>, \<^verbatim>\<open>int\<close>,
  \<^verbatim>\<open>list\<close>, or any other type object.\<close>

datatype pytype = TBool | TStr | TInt | TList | TOther

text \<open>The \<^verbatim>\<open>'default'\<close> field: a plain value, or a callable of the snapshot so far
  (which may raise).\<close>

datatype dflt = Static pyval | Callable "config \<Rightarrow> error + pyval"

record decl =
  d_default :: dflt
  d_type :: "pytype option"
  d_aliases :: "string list option"

section \<open>String methods\<close>

text \<open>\<^verbatim>\<open>str.lower\<close>, \<^verbatim>\<open>str.upper\<close>, \<^verbatim>\<open>str.strip\<close>, \<^verbatim>\<open>str.isdigit\<close> and \<^verbatim>\<open>int\<close> on
  ASCII text.\<close>

definition lower_char :: "char \<Rightarrow> char" where
  "lower_char c =
     (let n = (of_char c :: nat) in if 65 \<le> n \<and> n \<le> 90 then char_of (n + 32) else c)"

definition upper_char :: "char \<Rightarrow> char" where
  "upper_char c =
     (let n = (of_char c :: nat) in if 97 \<le> n \<and> n \<le> 122 then char_of (n - 32) else c)"

definition lower :: "string \<Rightarrow> string" where
  "lower s = map lower_char s"

definition upper :: "string \<Rightarrow> string" where
  "upper s = map upper_char s"

definition is_space :: "char \<Rightarrow> bool" where
  "is_space c = (c \<in> set [CHR '' '', CHR 0x09, CHR 0x0A, CHR 0x0B, CHR 0x0C, CHR 0x0D,
                           CHR 0x1C, CHR 0x1D, CHR 0x1E, CHR 0x1F])"

definition strip :: "string \<Rightarrow> string" where
  "strip s = rev (dropWhile is_space (rev (dropWhile is_space s)))"

definition is_digit :: "char \<Rightarrow> bool" where
  "is_digit c = (c \<in> set ''0123456789'')"

definition isdigit :: "string \<Rightarrow> bool" where
  "isdigit s = (s \<noteq> [] \<and> list_all is_digit s)"

definition digit_val :: "char \<Rightarrow> int" where
  "digit_val c = int (of_char c) - 48"

definition int_of_digits :: "string \<Rightarrow> int" where
  "int_of_digits s = foldl (\<lambda>a c. 10 * a + digit_val c) 0 s"

text \<open>The substring test \<^verbatim>\<open>needle in haystack\<close>.\<close>

fun starts_with :: "string \<Rightarrow> string \<Rightarrow> bool" where
  "starts_with [] s = True"
| "starts_with (n # ns) [] = False"
| "starts_with (n # ns) (c # cs) = (n = c \<and> starts_with ns cs)"

fun contains :: "string \<Rightarrow> string \<Rightarrow> bool" where
  "contains needle [] = (needle = [])"
| "contains needle (c # cs) = (starts_with needle (c # cs) \<or> contains needle cs)"

section \<open>A model of \<^verbatim>\<open>json.loads\<close>\<close>

text \<open>
  \<^verbatim>\<open>json.loads\<close> belongs to the Python standard library. It is modelled on the JSON
  texts built from \<^verbatim>\<open>null\<close>, \<^verbatim>\<open>true\<close>, \<^verbatim>\<open>false\<close>, integers, strings without
  escape sequences, and arrays, with the four JSON whitespace characters between
  tokens. A text that uses anything else the library accepts (objects, fractions and
  exponents, backslash escapes, \<^verbatim>\<open>NaN\<close>, \<^verbatim>\<open>Infinity\<close>) is answered with
  \<open>Inl NotModelled\<close>; a text the library rejects inside the fragment is answered with
  \<open>Inl JSONDecodeError\<close>.
\<close>

datatype token = TLBrack | TRBrack | TComma | TAtom pyval

definition is_ws :: "char \<Rightarrow> bool" where
  "is_ws c = (c \<in> set [CHR '' '', CHR 0x09, CHR 0x0A, CHR 0x0D])"

definition cons_tok :: "token \<Rightarrow> error + token list \<Rightarrow> error + token list" where
  "cons_tok t r = (case r of Inl e \<Rightarrow> Inl e | Inr ts \<Rightarrow> Inr (t # ts))"

text \<open>The digits of an integer literal and the text after it: a lone \<^verbatim>\<open>0\<close>, or a
  non-zero digit followed by digits.\<close>

fun span_int :: "string \<Rightarrow> (string \<times> string) option" where
  "span_int [] = None"
| "span_int (d # ds) =
     (if \<not> is_digit d then None
      else if d = CHR ''0'' then Some ([d], ds)
      else Some (d # takeWhile is_digit ds, dropWhile is_digit ds))"

definition float_follows :: "string \<Rightarrow> bool" where
  "float_follows rest = (case rest of [] \<Rightarrow> False | c # _ \<Rightarrow> c \<in> set ''.eE'')"

function lex :: "string \<Rightarrow> error + token list" where
  "lex [] = Inr []"
| "lex (c # cs) =
     (if is_ws c then lex cs
      else if c = CHR ''['' then cons_tok TLBrack (lex cs)
      else if c = CHR '']'' then cons_tok TRBrack (lex cs)
      else if c = CHR '','' then cons_tok TComma (lex cs)
      else if c = CHR 0x22 then
        (let body = takeWhile (\<lambda>d. d \<noteq> CHR 0x22) cs;
             rest = dropWhile (\<lambda>d. d \<noteq> CHR 0x22) cs
         in if rest = [] then Inl JSONDecodeError
            else if CHR 0x5C \<in> set body then Inl NotModelled
            else if list_ex (\<lambda>d. (of_char d :: nat) < 32) body then Inl JSONDecodeError
            else cons_tok (TAtom (PyStr body)) (lex (tl rest)))
      else if c = CHR ''-'' then
        (case span_int cs of
           None \<Rightarrow> (if starts_with ''Infinity'' cs then Inl NotModelled else Inl JSONDecodeError)
         | Some (digs, rest) \<Rightarrow>
             if float_follows rest then Inl NotModelled
             else cons_tok (TAtom (PyInt (- int_of_digits digs))) (lex rest))
      else if is_digit c then
        (case span_int (c # cs) of
           None \<Rightarrow> Inl JSONDecodeError
         | Some (digs, rest) \<Rightarrow>
             if float_follows rest then Inl NotModelled
             else cons_tok (TAtom (PyInt (int_of_digits digs))) (lex rest))
      else if starts_with ''null'' (c # cs) then cons_tok (TAtom PyNone) (lex (drop 3 cs))
      else if starts_with ''true'' (c # cs) then cons_tok (TAtom (PyBool True)) (lex (drop 3 cs))
      else if starts_with ''false'' (c # cs) then cons_tok (TAtom (PyBool False)) (lex (drop 4 cs))
      else if c = CHR ''{'' \<or> starts_with ''NaN'' (c # cs) \<or> starts_with ''Infinity'' (c # cs)
        then Inl NotModelled
      else Inl JSONDecodeError)"
  by pat_completeness auto
termination
proof (relation "measure length", goal_cases)
  have shorter: "length rest < length s" if "span_int s = Some (digs, rest)" for s digs rest
    using that by (cases s) (auto split: if_splits intro: le_imp_less_Suc length_dropWhile_le)
  {
    case 1
    show ?case by simp
  next
    case (6 c cs body rest)
    have "length (dropWhile (\<lambda>d. d \<noteq> CHR 0x22) cs) \<le> length cs"
      by (rule length_dropWhile_le)
    with 6 show ?case by (cases "dropWhile (\<lambda>d. d \<noteq> CHR 0x22) cs") auto
  next
    case (7 c cs x2 digs rest)
    then show ?case using shorter[of cs digs rest] by simp
  next
    case (8 c cs x2 digs rest)
    then show ?case using shorter[of "c # cs" digs rest] by simp
  }
qed simp_all

text \<open>The parser is a stack machine over the tokens: one frame per open array, holding
  the elements read so far (latest first) and what may come next.\<close>

datatype astate = AOpen | AValue | AComma

type_synonym stack = "(astate \<times> pyval list) list"

fun place :: "pyval \<Rightarrow> stack \<Rightarrow> (pyval option \<times> stack) option" where
  "place v [] = Some (Some v, [])"
| "place v ((s, items) # st) =
     (if s = AValue then None else Some (None, (AValue, v # items) # st))"

fun step :: "token \<Rightarrow> stack \<Rightarrow> (pyval option \<times> stack) option" where
  "step (TAtom v) st = place v st"
| "step TLBrack st =
     (case st of
        (AValue, items) # st' \<Rightarrow> None
      | _ \<Rightarrow> Some (None, (AOpen, []) # st))"
| "step TRBrack st =
     (case st of
        [] \<Rightarrow> None
      | (s, items) # st' \<Rightarrow> if s = AComma then None else place (PyList (rev items)) st')"
| "step TComma st =
     (case st of
        (AValue, items) # st' \<Rightarrow> Some (None, (AComma, items) # st')
      | _ \<Rightarrow> None)"

fun parse :: "pyval option \<Rightarrow> stack \<Rightarrow> token list \<Rightarrow> error + pyval" where
  "parse res st [] = (case res of Some v \<Rightarrow> Inr v | None \<Rightarrow> Inl JSONDecodeError)"
| "parse res st (t # ts) =
     (case res of
        Some v \<Rightarrow> Inl JSONDecodeError
      | None \<Rightarrow>
          (case step t st of
             None \<Rightarrow> Inl JSONDecodeError
           | Some (res', st') \<Rightarrow> parse res' st' ts))"

definition json_loads :: "string \<Rightarrow> error + pyval" where
  "json_loads s = (case lex s of Inl e \<Rightarrow> Inl e | Inr ts \<Rightarrow> parse None [] ts)"




section \<open>Resolving one key: \<^verbatim>\<open>load_config_val\<close>\<close>

text \<open>
  The local variable \<^verbatim>\<open>val\<close> of \<^verbatim>\<open>load_config_val\<close> has no value before the
  probe loop assigns one: \<open>Unbound\<close>. Once assigned it holds what \<^verbatim>\<open>dict.get\<close>
  returned, \<^verbatim>\<open>None\<close> or a string.
\<close>

datatype local_var = Unbound | Bound "string option"

text \<open>The arguments \<^verbatim>\<open>env_vars\<close> and \<^verbatim>\<open>config_file_vars\<close> are optional
  mappings. \<^verbatim>\<open>if env_vars:\<close> holds for a mapping with at least one entry;
  \<^verbatim>\<open>if val:\<close> holds for a non-empty string.\<close>

fun dict_truthy :: "dict option \<Rightarrow> bool" where
  "dict_truthy None = False"
| "dict_truthy (Some m) = (m \<noteq> [])"

fun dict_get :: "dict option \<Rightarrow> string \<Rightarrow> string option" where
  "dict_get None k = None"
| "dict_get (Some m) k = map_of m k"

fun str_truthy :: "string option \<Rightarrow> bool" where
  "str_truthy None = False"
| "str_truthy (Some s) = (s \<noteq> [])"

text \<open>
  The probe loop (lines 362--370): for each name, the environment is asked first and
  the file second; each \<^verbatim>\<open>get\<close> overwrites \<^verbatim>\<open>val\<close>, and a non-empty string ends
  the loop.
\<close>

fun probe :: "dict option \<Rightarrow> dict option \<Rightarrow> string list \<Rightarrow> local_var \<Rightarrow> local_var" where
  "probe env_vars config_file_vars [] val = val"
| "probe env_vars config_file_vars (key # keys) val =
     (if dict_truthy env_vars \<and> str_truthy (dict_get env_vars key)
      then Bound (dict_get env_vars key)
      else
        (let val1 = (if dict_truthy env_vars then Bound (dict_get env_vars key) else val)
         in if dict_truthy config_file_vars \<and> str_truthy (dict_get config_file_vars key)
            then Bound (dict_get config_file_vars key)
            else probe env_vars config_file_vars keys
                   (if dict_truthy config_file_vars
                    then Bound (dict_get config_file_vars key) else val1)))"

text \<open>The default branch (lines 373--377): a callable default is applied to the
  snapshot, which must be a dict.\<close>

definition use_default :: "dflt \<Rightarrow> config option \<Rightarrow> error + pyval" where
  "use_default deflt config =
     (case deflt of
        Callable f \<Rightarrow> (case config of None \<Rightarrow> Inl AssertionError | Some c \<Rightarrow> f c)
      | Static v \<Rightarrow> Inr v)"

text \<open>The coercion chain (lines 379--400), one branch per type.\<close>

definition coerce :: "pytype \<Rightarrow> string \<Rightarrow> error + pyval" where
  "coerce ty val =
     (case ty of
        TBool \<Rightarrow>
          if lower val \<in> set [''true'', ''yes'', ''1''] then Inr (PyBool True)
          else if lower val \<in> set [''false'', ''no'', ''0''] then Inr (PyBool False)
          else Inl (ValueError val)
      | TStr \<Rightarrow>
          if lower val \<in> set [''true'', ''false'', ''yes'', ''no'', ''1'', ''0'']
          then Inl (ValueError val)
          else Inr (PyStr (strip val))
      | TInt \<Rightarrow>
          if \<not> isdigit val then Inl (ValueError val) else Inr (PyInt (int_of_digits val))
      | TList \<Rightarrow> json_loads val
      | TOther \<Rightarrow> Inl PyException)"

definition load_config_val ::
  "string \<Rightarrow> dflt \<Rightarrow> pytype option \<Rightarrow> string list option \<Rightarrow> config option \<Rightarrow>
   dict option \<Rightarrow> dict option \<Rightarrow> error + pyval" where
  "load_config_val key deflt ty aliases config env_vars config_file_vars =
     (let config_keys_to_check = key # (case aliases of None \<Rightarrow> [] | Some a \<Rightarrow> a);
          val = probe env_vars config_file_vars config_keys_to_check Unbound
      in case ty of
           None \<Rightarrow> use_default deflt config
         | Some t \<Rightarrow>
             (case val of
                Unbound \<Rightarrow> Inl UnboundLocalError
              | Bound None \<Rightarrow> use_default deflt config
              | Bound (Some v) \<Rightarrow> coerce t v))"

section \<open>The declared keys: \<^verbatim>\<open>CONFIG_DEFAULTS\<close>\<close>

text \<open>Truthiness of a value, subscription \<^verbatim>\<open>c[key]\<close> of the snapshot and \<^verbatim>\<open>xs[i]\<close>
  of a list, as the computed defaults of the table use them.\<close>

fun py_truthy :: "pyval \<Rightarrow> bool" where
  "py_truthy PyNone = False"
| "py_truthy (PyBool b) = b"
| "py_truthy (PyInt i) = (i \<noteq> 0)"
| "py_truthy (PyStr s) = (s \<noteq> [])"
| "py_truthy (PyList xs) = (xs \<noteq> [])"

definition getitem :: "config \<Rightarrow> string \<Rightarrow> error + pyval" where
  "getitem c key = (case map_of c key of None \<Rightarrow> Inl (KeyError key) | Some v \<Rightarrow> Inr v)"

definition list_index :: "pyval list \<Rightarrow> int \<Rightarrow> error + pyval" where
  "list_index xs i =
     (if 0 \<le> i \<and> i < int (length xs) then Inr (xs ! nat i)
      else if i < 0 \<and> - int (length xs) \<le> i then Inr (xs ! nat (int (length xs) + i))
      else Inl IndexError)"

definition list_getitem :: "pyval list \<Rightarrow> pyval \<Rightarrow> error + pyval" where
  "list_getitem xs i =
     (case i of
        PyBool b \<Rightarrow> list_index xs (if b then 1 else 0)
      | PyInt n \<Rightarrow> list_index xs n
      | _ \<Rightarrow> Inl TypeError)"

definition opt :: "pytype \<Rightarrow> dflt \<Rightarrow> decl" where
  "opt ty dv = \<lparr>d_default = dv, d_type = Some ty, d_aliases = None\<rparr>"

definition opt_aliased :: "pytype \<Rightarrow> dflt \<Rightarrow> string list \<Rightarrow> decl" where
  "opt_aliased ty dv als = \<lparr>d_default = dv, d_type = Some ty, d_aliases = Some als\<rparr>"

type_synonym defaults = "(string \<times> decl) list"

text \<open>The table of lines 46--174, section by section in declaration order. The default
  of \<^verbatim>\<open>IS_TTY\<close> asks the terminal (\<^verbatim>\<open>sys.stdout.isatty()\<close>); its answer is the
  parameter \<open>isatty\<close>.\<close>

definition CONFIG_DEFAULTS :: "bool \<Rightarrow> (string \<times> defaults) list" where
  "CONFIG_DEFAULTS isatty =
  [(''SHELL_CONFIG'',
    [(''IS_TTY'', opt TBool (Callable (\<lambda>c. Inr (PyBool isatty)))),
     (''USE_COLOR'', opt TBool (Callable (\<lambda>c. getitem c ''IS_TTY''))),
     (''SHOW_PROGRESS'', opt TBool (Callable (\<lambda>c. getitem c ''IS_TTY''))),
     (''IN_DOCKER'', opt TBool (Static (PyBool False)))]),
   (''GENERAL_CONFIG'',
    [(''OUTPUT_DIR'', opt TStr (Static PyNone)),
     (''CONFIG_FILE'', opt TStr (Static PyNone)),
     (''ONLY_NEW'', opt TBool (Static (PyBool True))),
     (''TIMEOUT'', opt TInt (Static (PyInt 60))),
     (''MEDIA_TIMEOUT'', opt TInt (Static (PyInt 3600))),
     (''OUTPUT_PERMISSIONS'', opt TStr (Static (PyStr ''755''))),
     (''RESTRICT_FILE_NAMES'', opt TStr (Static (PyStr ''windows''))),
     (''URL_BLACKLIST'', opt TStr (Static (PyStr
        (CHR 0x5C # ''.(css|js|otf|ttf|woff|woff2|gstatic'' @ CHR 0x5C # ''.com|googleapis''
           @ CHR 0x5C # ''.com/css)('' @ CHR 0x5C # ''?.*)?$''))))]),
   (''SERVER_CONFIG'',
    [(''SECRET_KEY'', opt TStr (Static PyNone)),
     (''BIND_ADDR'', opt TStr (Callable (\<lambda>c.
        case getitem c ''IN_DOCKER'' of
          Inl e \<Rightarrow> Inl e
        | Inr v \<Rightarrow> list_getitem [PyStr ''127.0.0.1:8000'', PyStr ''0.0.0.0:8000''] v))),
     (''ALLOWED_HOSTS'', opt TStr (Static (PyStr ''*''))),
     (''DEBUG'', opt TBool (Static (PyBool False))),
     (''PUBLIC_INDEX'', opt TBool (Static (PyBool True))),
     (''PUBLIC_SNAPSHOTS'', opt TBool (Static (PyBool True))),
     (''PUBLIC_ADD_VIEW'', opt TBool (Static (PyBool False))),
     (''FOOTER_INFO'', opt TStr (Static (PyStr ''Content is hosted for personal archiving purposes only.  Contact server owner for any takedown requests.''))),
     (''ACTIVE_THEME'', opt TStr (Static (PyStr ''default'')))]),
   (''ARCHIVE_METHOD_TOGGLES'',
    [(''SAVE_TITLE'', opt_aliased TBool (Static (PyBool True)) [''FETCH_TITLE'']),
     (''SAVE_FAVICON'', opt_aliased TBool (Static (PyBool True)) [''FETCH_FAVICON'']),
     (''SAVE_WGET'', opt_aliased TBool (Static (PyBool True)) [''FETCH_WGET'']),
     (''SAVE_WGET_REQUISITES'', opt_aliased TBool (Static (PyBool True)) [''FETCH_WGET_REQUISITES'']),
     (''SAVE_SINGLEFILE'', opt_aliased TBool (Static (PyBool True)) [''FETCH_SINGLEFILE'']),
     (''SAVE_READABILITY'', opt_aliased TBool (Static (PyBool True)) [''FETCH_READABILITY'']),
     (''SAVE_MERCURY'', opt_aliased TBool (Static (PyBool True)) [''FETCH_MERCURY'']),
     (''SAVE_PDF'', opt_aliased TBool (Static (PyBool True)) [''FETCH_PDF'']),
     (''SAVE_SCREENSHOT'', opt_aliased TBool (Static (PyBool True)) [''FETCH_SCREENSHOT'']),
     (''SAVE_DOM'', opt_aliased TBool (Static (PyBool True)) [''FETCH_DOM'']),
     (''SAVE_HEADERS'', opt_aliased TBool (Static (PyBool True)) [''FETCH_HEADERS'']),
     (''SAVE_WARC'', opt_aliased TBool (Static (PyBool True)) [''FETCH_WARC'']),
     (''SAVE_GIT'', opt_aliased TBool (Static (PyBool True)) [''FETCH_GIT'']),
     (''SAVE_MEDIA'', opt_aliased TBool (Static (PyBool True)) [''FETCH_MEDIA'']),
     (''SAVE_ARCHIVE_DOT_ORG'', opt_aliased TBool (Static (PyBool True)) [''SUBMIT_ARCHIVE_DOT_ORG''])]),
   (''ARCHIVE_METHOD_OPTIONS'',
    [(''RESOLUTION'', opt_aliased TStr (Static (PyStr ''1440,2000'')) [''SCREENSHOT_RESOLUTION'']),
     (''GIT_DOMAINS'', opt TStr (Static (PyStr ''github.com,bitbucket.org,gitlab.com''))),
     (''CHECK_SSL_VALIDITY'', opt TBool (Static (PyBool True))),
     (''CURL_USER_AGENT'', opt TStr (Static (PyStr ''ArchiveBox/{VERSION} (+https://github.com/pirate/ArchiveBox/) curl/{CURL_VERSION}''))),
     (''WGET_USER_AGENT'', opt TStr (Static (PyStr ''ArchiveBox/{VERSION} (+https://github.com/pirate/ArchiveBox/) wget/{WGET_VERSION}''))),
     (''CHROME_USER_AGENT'', opt TStr (Static (PyStr ''Mozilla/5.0 (Windows NT 10.0; Win64; x64) AppleWebKit/537.36 (KHTML, like Gecko) Chrome/73.0.3683.75 Safari/537.36''))),
     (''COOKIES_FILE'', opt TStr (Static PyNone)),
     (''CHROME_USER_DATA_DIR'', opt TStr (Static PyNone)),
     (''CHROME_HEADLESS'', opt TBool (Static (PyBool True))),
     (''CHROME_SANDBOX'', opt TBool (Callable (\<lambda>c.
        case getitem c ''IN_DOCKER'' of
          Inl e \<Rightarrow> Inl e
        | Inr v \<Rightarrow> Inr (PyBool (\<not> py_truthy v))))),
     (''YOUTUBEDL_ARGS'', opt TList (Static (PyList (map PyStr
        [''--write-description'', ''--write-info-json'', ''--write-annotations'',
         ''--write-thumbnail'', ''--no-call-home'', ''--user-agent'', ''--all-subs'',
         ''--extract-audio'', ''--keep-video'', ''--ignore-errors'', ''--geo-bypass'',
         ''--audio-format'', ''mp3'', ''--audio-quality'', ''320K'', ''--embed-thumbnail'',
         ''--add-metadata''])))),
     (''WGET_ARGS'', opt TList (Static (PyList (map PyStr
        [''--no-verbose'', ''--adjust-extension'', ''--convert-links'',
         ''--force-directories'', ''--backup-converted'', ''--span-hosts'', ''--no-parent'',
         ''-e'', ''robots=off''])))),
     (''CURL_ARGS'', opt TList (Static (PyList (map PyStr
        [''--silent'', ''--location'', ''--compressed''])))),
     (''GIT_ARGS'', opt TList (Static (PyList (map PyStr [''--recursive'']))))]),
   (''SEARCH_BACKEND_CONFIG'',
    [(''USE_INDEXING_BACKEND'', opt TBool (Static (PyBool True))),
     (''USE_SEARCHING_BACKEND'', opt TBool (Static (PyBool True))),
     (''SEARCH_BACKEND_ENGINE'', opt TStr (Static (PyStr ''sonic''))),
     (''SEARCH_BACKEND_HOST_NAME'', opt TStr (Static (PyStr ''localhost''))),
     (''SEARCH_BACKEND_PORT'', opt TInt (Static (PyInt 1491))),
     (''SEARCH_BACKEND_PASSWORD'', opt TStr (Static (PyStr ''SecretPassword''))),
     (''SONIC_COLLECTION'', opt TStr (Static (PyStr ''archivebox''))),
     (''SONIC_BUCKET'', opt TStr (Static (PyStr ''snapshots'')))]),
   (''DEPENDENCY_CONFIG'',
    [(''USE_CURL'', opt TBool (Static (PyBool True))),
     (''USE_WGET'', opt TBool (Static (PyBool True))),
     (''USE_SINGLEFILE'', opt TBool (Static (PyBool True))),
     (''USE_READABILITY'', opt TBool (Static (PyBool True))),
     (''USE_MERCURY'', opt TBool (Static (PyBool True))),
     (''USE_GIT'', opt TBool (Static (PyBool True))),
     (''USE_CHROME'', opt TBool (Static (PyBool True))),
     (''USE_NODE'', opt TBool (Static (PyBool True))),
     (''USE_YOUTUBEDL'', opt TBool (Static (PyBool True))),
     (''CURL_BINARY'', opt TStr (Static (PyStr ''curl''))),
     (''GIT_BINARY'', opt TStr (Static (PyStr ''git''))),
     (''WGET_BINARY'', opt TStr (Static (PyStr ''wget''))),
     (''SINGLEFILE_BINARY'', opt TStr (Static (PyStr ''single-file''))),
     (''READABILITY_BINARY'', opt TStr (Static (PyStr ''readability-extractor''))),
     (''MERCURY_BINARY'', opt TStr (Static (PyStr ''mercury-parser''))),
     (''YOUTUBEDL_BINARY'', opt TStr (Static (PyStr ''youtube-dl''))),
     (''CHROME_BINARY'', opt TStr (Static PyNone))])]"

section \<open>The world outside the module\<close>

text \<open>
  A parsed config file, as a \<^verbatim>\<open>ConfigParser\<close> object holds it: the sections in file
  order, each with its options in order. The parser is created with
  \<^verbatim>\<open>optionxform = str\<close>, so option names keep their case. The \<^verbatim>\<open>DEFAULT\<close>
  section and value interpolation of the library are outside the model: it covers
  files and assignments without \<^verbatim>\<open>%\<close> and without a \<^verbatim>\<open>[DEFAULT]\<close> section.
\<close>

type_synonym ini = "(string \<times> dict) list"

text \<open>
  What the module takes from its surroundings: the process environment
  \<^verbatim>\<open>os.environ\<close>, the terminal, the functions of \<^verbatim>\<open>DERIVED_CONFIG_DEFAULTS\<close> in
  declaration order (they consult the file system and run external binaries),
  \<^verbatim>\<open>ConfigParser.read\<close> and \<^verbatim>\<open>ConfigParser.write\<close> as functions from and to the
  text of a file, and the string that \<^verbatim>\<open>get_random_string(50, chars)\<close> draws.
\<close>

record world =
  environ :: dict
  isatty :: bool
  derived_fns :: "(string \<times> (config \<Rightarrow> error + pyval)) list"
  cp_read :: "string \<Rightarrow> error + ini"
  cp_write :: "ini \<Rightarrow> string"
  get_random_string :: string

text \<open>Every entry of \<^verbatim>\<open>DERIVED_CONFIG_DEFAULTS\<close> (lines 268--345) has the shape
  \<^verbatim>\<open>{'default': lambda c: ...}\<close>: a callable default, no type, no aliases.\<close>

definition derived_decl :: "(config \<Rightarrow> error + pyval) \<Rightarrow> decl" where
  "derived_decl f = \<lparr>d_default = Callable f, d_type = None, d_aliases = None\<rparr>"

definition DERIVED_CONFIG_DEFAULTS :: "world \<Rightarrow> defaults" where
  "DERIVED_CONFIG_DEFAULTS w = map (\<lambda>(key, f). (key, derived_decl f)) (derived_fns w)"

text \<open>The files on disk: a path is a string, a file its text. Paths are compared as
  written (\<^verbatim>\<open>Path.resolve\<close> is taken to have been applied already).\<close>

type_synonym fs = "string \<rightharpoonup> string"

definition CONFIG_FILENAME :: string where
  "CONFIG_FILENAME = ''ArchiveBox.conf''"

definition newline :: char where
  "newline = CHR 0x0A"

definition CONFIG_HEADER :: string where
  "CONFIG_HEADER = concat (map (\<lambda>l. l @ [newline])
     [''# This is the config file for your ArchiveBox collection.'',
      ''#'',
      ''# You can add options here manually in INI format, or automatically by running:'',
      ''#    archivebox config --set KEY=VALUE'',
      ''# '',
      ''# If you modify this file manually, make sure to update your archive after by running:'',
      ''#    archivebox init'',
      ''#'',
      ''# A list of all possible config with documentation and examples can be found here:'',
      ''#    https://github.com/pirate/ArchiveBox/wiki/Configuration'',
      []])"

text \<open>\<^verbatim>\<open>out_dir or Path(os.getenv('OUTPUT_DIR', '.')).resolve()\<close>, then
  \<^verbatim>\<open>Path(out_dir) / CONFIG_FILENAME\<close>. \<^verbatim>\<open>Path('')\<close> is the current directory, as
  \<^verbatim>\<open>Path('.')\<close> is.\<close>

definition config_path_of :: "world \<Rightarrow> string option \<Rightarrow> string" where
  "config_path_of w out_dir =
     (let env_dir = (case map_of (environ w) ''OUTPUT_DIR'' of
                       Some d \<Rightarrow> if d = [] then ''.'' else d | None \<Rightarrow> ''.'');
          dir = (case out_dir of None \<Rightarrow> env_dir | Some d \<Rightarrow> if d = [] then env_dir else d)
      in dir @ ''/'' @ CONFIG_FILENAME)"

definition bak_path_of :: "world \<Rightarrow> string option \<Rightarrow> string" where
  "bak_path_of w out_dir = config_path_of w out_dir @ ''.bak''"

text \<open>Modelled from the spec: \<^verbatim>\<open>atomic_write\<close> of \<^verbatim>\<open>archivebox/system.py\<close>, which is
  not among the sources. It replaces the contents of the file at the path by the given
  text, creating the file if needed.\<close>

definition atomic_write :: "string \<Rightarrow> string \<Rightarrow> fs \<Rightarrow> fs" where
  "atomic_write path contents files = files(path \<mapsto> contents)"

section \<open>Reading the sources: \<^verbatim>\<open>load_config_file\<close>, \<^verbatim>\<open>load_config\<close>, \<^verbatim>\<open>load_all_config\<close>\<close>

text \<open>The dict comprehension of lines 413--417: every option of every section, under
  its upper-cased name; a later occurrence overwrites an earlier one.\<close>

definition flatten :: "ini \<Rightarrow> dict" where
  "flatten config_file =
     foldl (\<lambda>acc (key, val). AList.update (upper key) val acc) [] (concat (map snd config_file))"

definition load_config_file :: "world \<Rightarrow> fs \<Rightarrow> string option \<Rightarrow> error + dict option" where
  "load_config_file w files out_dir =
     (case files (config_path_of w out_dir) of
        None \<Rightarrow> Inr None
      | Some text \<Rightarrow>
          (case cp_read w text of
             Inl e \<Rightarrow> Inl e
           | Inr config_file \<Rightarrow> Inr (Some (flatten config_file))))"

text \<open>The loop of \<^verbatim>\<open>load_config\<close> (lines 499--523): each key is resolved against the
  snapshot built so far and stored into it; an exception is reported and raised again.
  (An interrupt from the keyboard during the loop is outside the model.)\<close>

fun load_config_loop ::
  "defaults \<Rightarrow> config \<Rightarrow> dict option \<Rightarrow> dict option \<Rightarrow> error + config" where
  "load_config_loop [] extended_config env_vars config_file_vars = Inr extended_config"
| "load_config_loop ((key, d) # rest) extended_config env_vars config_file_vars =
     (case load_config_val key (d_default d) (d_type d) (d_aliases d)
             (Some extended_config) env_vars config_file_vars of
        Inl e \<Rightarrow> Inl e
      | Inr v \<Rightarrow>
          load_config_loop rest (AList.update key v extended_config) env_vars config_file_vars)"

definition load_config ::
  "world \<Rightarrow> fs \<Rightarrow> defaults \<Rightarrow> config option \<Rightarrow> string option \<Rightarrow> dict option \<Rightarrow>
   dict option \<Rightarrow> error + config" where
  "load_config w files defaults config out_dir env_vars config_file_vars =
     (let env_vars' = (if dict_truthy env_vars then env_vars else Some (environ w))
      in case (if dict_truthy config_file_vars then Inr config_file_vars
               else load_config_file w files out_dir) of
           Inl e \<Rightarrow> Inl e
         | Inr config_file_vars' \<Rightarrow>
             load_config_loop defaults (case config of None \<Rightarrow> [] | Some c \<Rightarrow> c)
               env_vars' config_file_vars')"

text \<open>\<^verbatim>\<open>load_all_config\<close> (lines 821--826): the sections of \<^verbatim>\<open>CONFIG_DEFAULTS\<close> in
  order, then the derived keys, all into one snapshot.\<close>

fun load_sections :: "world \<Rightarrow> fs \<Rightarrow> (string \<times> defaults) list \<Rightarrow> config \<Rightarrow> error + config" where
  "load_sections w files [] CONFIG = Inr CONFIG"
| "load_sections w files ((section_name, section_config) # rest) CONFIG =
     (case load_config w files section_config (Some CONFIG) None None None of
        Inl e \<Rightarrow> Inl e
      | Inr CONFIG' \<Rightarrow> load_sections w files rest CONFIG')"

definition load_all_config :: "world \<Rightarrow> fs \<Rightarrow> error + config" where
  "load_all_config w files =
     (case load_sections w files (CONFIG_DEFAULTS (isatty w)) [] of
        Inl e \<Rightarrow> Inl e
      | Inr CONFIG \<Rightarrow>
          load_config w files (DERIVED_CONFIG_DEFAULTS w) (Some CONFIG) None None None)"

section \<open>Writing the file: \<^verbatim>\<open>write_config_file\<close>\<close>

text \<open>\<^verbatim>\<open>find_section\<close> (line 442): the first section that declares the key; indexing
  the empty list raises.\<close>

definition find_section :: "(string \<times> defaults) list \<Rightarrow> string \<Rightarrow> error + string" where
  "find_section table key =
     (case filter (\<lambda>(name, opts). key \<in> set (map fst opts)) table of
        [] \<Rightarrow> Inl IndexError
      | (name, opts) # _ \<Rightarrow> Inr name)"

text \<open>The loop of lines 445--451: each assignment is merged into the options of its
  section, which is created at the end of the file if absent.\<close>

fun upsert_assignments :: "(string \<times> defaults) list \<Rightarrow> dict \<Rightarrow> ini \<Rightarrow> error + ini" where
  "upsert_assignments table [] config_file = Inr config_file"
| "upsert_assignments table ((key, val) # rest) config_file =
     (case find_section table key of
        Inl e \<Rightarrow> Inl e
      | Inr section \<Rightarrow>
          (let existing_config =
                 (case map_of config_file section of Some opts \<Rightarrow> opts | None \<Rightarrow> [])
           in upsert_assignments table rest
                (AList.update section (AList.update key val existing_config) config_file)))"


definition existing_secret_key :: "ini \<Rightarrow> string option" where
  "existing_secret_key config_file =
     (case map_of config_file ''SERVER_CONFIG'' of
        None \<Rightarrow> None
      | Some opts \<Rightarrow> map_of opts ''SECRET_KEY'')"

definition needs_secret_key :: "ini \<Rightarrow> bool" where
  "needs_secret_key config_file =
     (case existing_secret_key config_file of
        None \<Rightarrow> True
      | Some k \<Rightarrow> k = [] \<or> contains ''not a valid secret'' k)"

definition inject_secret_key :: "world \<Rightarrow> ini \<Rightarrow> ini" where
  "inject_secret_key w config_file =
     (if needs_secret_key config_file then
        (case map_of config_file ''SERVER_CONFIG'' of
           Some opts \<Rightarrow>
             AList.update ''SERVER_CONFIG''
               (AList.update ''SECRET_KEY'' (get_random_string w) opts) config_file
         | None \<Rightarrow>
             AList.update ''SERVER_CONFIG'' [(''SECRET_KEY'', get_random_string w)] config_file)
      else config_file)"

text \<open>
  Lines 429--468, up to and including the write of the updated file. The result is the
  section structure that was written, or the exception that ended the call before the
  write, together with the files as they are at that point.
\<close>

definition persist_config_file ::
  "world \<Rightarrow> dict \<Rightarrow> string option \<Rightarrow> fs \<Rightarrow> (error + ini) \<times> fs" where
  "persist_config_file w config out_dir files =
     (let config_path = config_path_of w out_dir;
          files1 = (if files config_path = None
                    then atomic_write config_path CONFIG_HEADER files else files)
      in case files1 config_path of
           None \<Rightarrow> (Inl FileNotFoundError, files1)
         | Some old \<Rightarrow>
             (case cp_read w old of
                Inl e \<Rightarrow> (Inl e, files1)
              | Inr config_file \<Rightarrow>
                  (let files2 = atomic_write (bak_path_of w out_dir) old files1
                   in case upsert_assignments (CONFIG_DEFAULTS (isatty w)) config config_file of
                        Inl e \<Rightarrow> (Inl e, files2)
                      | Inr config_file1 \<Rightarrow>
                          (let config_file2 = inject_secret_key w config_file1
                           in (Inr config_file2,
                               files2(config_path \<mapsto> cp_write w config_file2))))))"

text \<open>The returned dict of lines 473--476.\<close>

definition requested_values :: "dict \<Rightarrow> config \<Rightarrow> config" where
  "requested_values config CONFIG =
     foldl (\<lambda>acc key.
              AList.update (upper key)
                (case map_of CONFIG (upper key) of None \<Rightarrow> PyNone | Some v \<Rightarrow> v) acc)
       [] (map fst config)"

text \<open>
  The whole function: what it returns (a dict, or the exception it raises) and the
  files it leaves. Validation re-resolves everything with \<^verbatim>\<open>load_all_config\<close>; the
  \<^verbatim>\<open>return\<close> of line 473 leaves the function from inside the \<^verbatim>\<open>try\<close> block, and the
  bare \<^verbatim>\<open>except\<close> restores the backup and falls through to lines 482--485.
\<close>

definition write_config_file ::
  "world \<Rightarrow> dict \<Rightarrow> string option \<Rightarrow> fs \<Rightarrow> (error + config) \<times> fs" where
  "write_config_file w config out_dir files =
     (case persist_config_file w config out_dir files of
        (Inl e, files') \<Rightarrow> (Inl e, files')
      | (Inr config_file, files3) \<Rightarrow>
          (case load_all_config w files3 of
             Inr CONFIG \<Rightarrow> (Inr (requested_values config CONFIG), files3)
           | Inl e \<Rightarrow>
               (case files3 (bak_path_of w out_dir) of
                  None \<Rightarrow> (Inl FileNotFoundError, files3)
                | Some old \<Rightarrow>
                    (let files4 = atomic_write (config_path_of w out_dir) old files3;
                         files5 = (if files4 (bak_path_of w out_dir) = None then files4
                                   else files4((bak_path_of w out_dir) := None))
                     in (Inr [], files5)))))"

section \<open>A reader and a writer for plain INI files\<close>

text \<open>
  \<^verbatim>\<open>ConfigParser.write\<close> prints every section as a header line, one
  \<^verbatim>\<open>key = value\<close> line per option (a line break inside a value is followed by a tab),
  and an empty line.
\<close>

definition ini_write :: "ini \<Rightarrow> string" where
  "ini_write config_file =
     concat (map (\<lambda>(name, opts).
        ''['' @ name @ '']'' @ [newline]
        @ concat (map (\<lambda>(key, val).
            key @ '' = ''
            @ concat (map (\<lambda>c. if c = newline then [newline, CHR 0x09] else [c]) val)
            @ [newline]) opts)
        @ [newline]) config_file)"

text \<open>
  \<^verbatim>\<open>ConfigParser.read\<close> on the files the writer above produces, with comment lines and
  empty lines in between: section headers \<^verbatim>\<open>[name]\<close> and option lines
  \<^verbatim>\<open>key = value\<close> or \<^verbatim>\<open>key: value\<close> that start in the first column. A line outside
  this format that the library may still accept (an indented continuation line, a
  header followed by more text, a \<^verbatim>\<open>[DEFAULT]\<close> section, a \<^verbatim>\<open>%\<close>) is answered with
  \<open>NotModelled\<close>; every exception of the library is \<open>ConfigParserError\<close>.
\<close>

fun split_lines :: "string \<Rightarrow> string list" where
  "split_lines [] = []"
| "split_lines (c # cs) =
     (if c = newline then [] # split_lines cs
      else (case split_lines cs of [] \<Rightarrow> [[c]] | l # ls \<Rightarrow> (c # l) # ls))"

fun split_at_delim :: "string \<Rightarrow> (string \<times> string) option" where
  "split_at_delim [] = None"
| "split_at_delim (c # cs) =
     (if c = CHR ''='' \<or> c = CHR '':'' then Some ([], cs)
      else (case split_at_delim cs of None \<Rightarrow> None | Some (a, b) \<Rightarrow> Some (c # a, b)))"

fun ini_read_lines :: "ini \<Rightarrow> string option \<Rightarrow> string list \<Rightarrow> error + ini" where
  "ini_read_lines acc cursect [] = Inr acc"
| "ini_read_lines acc cursect (line # lines) =
     (let val = strip line in
      if val = [] \<or> starts_with ''#'' val \<or> starts_with '';'' val
        then ini_read_lines acc cursect lines
      else if is_space (hd line) \<or> CHR ''%'' \<in> set line then Inl NotModelled
      else if hd val = CHR ''['' then
        (let name = butlast (tl val) in
         if last val \<noteq> CHR '']'' \<or> name = [] \<or> CHR '']'' \<in> set name \<or> name = ''DEFAULT''
           then Inl NotModelled
         else if map_of acc name \<noteq> None then Inl ConfigParserError
         else ini_read_lines (acc @ [(name, [])]) (Some name) lines)
      else
        (case cursect of
           None \<Rightarrow> Inl ConfigParserError
         | Some sect \<Rightarrow>
             (case split_at_delim val of
                None \<Rightarrow> Inl ConfigParserError
              | Some (name, v) \<Rightarrow>
                  (let optname = strip name;
                       opts = (case map_of acc sect of Some os \<Rightarrow> os | None \<Rightarrow> [])
                   in if optname = [] then Inl ConfigParserError
                      else if map_of opts optname \<noteq> None then Inl ConfigParserError
                      else ini_read_lines (AList.update sect (opts @ [(optname, strip v)]) acc)
                             cursect lines))))"

definition ini_read :: "string \<Rightarrow> error + ini" where
  "ini_read text = ini_read_lines [] None (split_lines text)"

section \<open>A worked configuration\<close>

text \<open>
  A concrete world on which the model is run in the examples below: one environment
  variable, no terminal, the INI reader and writer above, a fixed draw of the random
  secret, and the four entries of \<^verbatim>\<open>DERIVED_CONFIG_DEFAULTS\<close> that concern curl and
  read nothing but the snapshot (lines 296, 299, 300 and 301, in that order). Python's
  \<^verbatim>\<open>and\<close> and \<^verbatim>\<open>or\<close> return one of their operands and evaluate the right one only
  when needed, so a missing key on the right raises only then.
\<close>

definition py_and :: "error + pyval \<Rightarrow> error + pyval \<Rightarrow> error + pyval" where
  "py_and a b = (case a of Inl e \<Rightarrow> Inl e | Inr v \<Rightarrow> if py_truthy v then b else Inr v)"

definition py_or :: "error + pyval \<Rightarrow> error + pyval \<Rightarrow> error + pyval" where
  "py_or a b = (case a of Inl e \<Rightarrow> Inl e | Inr v \<Rightarrow> if py_truthy v then Inr v else b)"

definition curl_derived :: "(string \<times> (config \<Rightarrow> error + pyval)) list" where
  "curl_derived =
     [(''USE_CURL'', \<lambda>c.
         py_and (getitem c ''USE_CURL'')
           (py_or (py_or (getitem c ''SAVE_FAVICON'') (getitem c ''SAVE_TITLE''))
                  (getitem c ''SAVE_ARCHIVE_DOT_ORG''))),
      (''CURL_ARGS'', \<lambda>c. py_or (getitem c ''CURL_ARGS'') (Inr (PyList []))),
      (''SAVE_FAVICON'', \<lambda>c. py_and (getitem c ''USE_CURL'') (getitem c ''SAVE_FAVICON'')),
      (''SAVE_ARCHIVE_DOT_ORG'', \<lambda>c.
         py_and (getitem c ''USE_CURL'') (getitem c ''SAVE_ARCHIVE_DOT_ORG''))]"

definition example_world :: world where
  "example_world =
     \<lparr>environ = [(''HOME'', ''/root'')], isatty = False, derived_fns = curl_derived,
      cp_read = ini_read, cp_write = ini_write,
      get_random_string = ''k3-x9_w+q!7.z0m4c8v1b5n2a6s-d_f+g!h.j3k9l0p7o4i8u1''\<rparr>"

definition example_files :: fs where
  "example_files =
     [''./ArchiveBox.conf'' \<mapsto> ini_write [(''GENERAL_CONFIG'', [(''TIMEOUT'', ''60'')])]]"



text \<open>A base snapshot for the derived pass, with curl in use and the three methods that
  need it switched off, and the snapshot the derived pass turns it into.\<close>

definition example_base :: config where
  "example_base =
     [(''USE_CURL'', PyBool True), (''SAVE_FAVICON'', PyBool False), (''SAVE_TITLE'', PyBool False),
      (''SAVE_ARCHIVE_DOT_ORG'', PyBool False), (''CURL_ARGS'', PyList [])]"

definition example_final :: config where
  "example_final =
     [(''USE_CURL'', PyBool False), (''SAVE_FAVICON'', PyBool False), (''SAVE_TITLE'', PyBool False),
      (''SAVE_ARCHIVE_DOT_ORG'', PyBool False), (''CURL_ARGS'', PyList [])]"

section \<open>Properties of \<^verbatim>\<open>load_config_val\<close>\<close>

lemma probe_no_sources:
  "\<not> dict_truthy env_vars \<Longrightarrow> \<not> dict_truthy config_file_vars \<Longrightarrow>
   probe env_vars config_file_vars keys val = val"
  by (induction keys arbitrary: val) simp_all

lemma dict_get_truthy: "dict_get d k = Some v \<Longrightarrow> dict_truthy d"
  by (cases d) auto

text \<open>When no probed name has a non-empty string in either source, the loop runs to
  its end and \<^verbatim>\<open>val\<close> holds the result of the last \<^verbatim>\<open>get\<close> that was made.\<close>

lemma probe_exhausted:
  "\<forall>n\<in>set names. \<not> str_truthy (dict_get env_vars n) \<and> \<not> str_truthy (dict_get config_file_vars n)
   \<Longrightarrow> probe env_vars config_file_vars names val =
     (if names = [] then val
      else if dict_truthy config_file_vars then Bound (dict_get config_file_vars (last names))
      else if dict_truthy env_vars then Bound (dict_get env_vars (last names)) else val)"
  by (induction names arbitrary: val) (auto simp: Let_def)

text \<open>
  \<^bold>\<open>C3\<close>, as stated, fails in its third part. \<^verbatim>\<open>CHROME_USER_DATA_DIR\<close> is a string
  key with default \<^verbatim>\<open>None\<close>. With an environment that does not mention it and a config
  file that holds the empty string for it, neither source holds a non-empty value under
  the probed name, yet resolution yields the empty string and not the default: the last
  \<^verbatim>\<open>get\<close> left \<^verbatim>\<open>val = ''\<close>, which is not \<^verbatim>\<open>None\<close> (the comment on line 282 relies
  on this).
\<close>

theorem C3_counterexample:
  "\<not> str_truthy (dict_get (Some [(''HOME'', ''/root'')]) ''CHROME_USER_DATA_DIR'')
   \<and> \<not> str_truthy (dict_get (Some [(''CHROME_USER_DATA_DIR'', [])]) ''CHROME_USER_DATA_DIR'')
   \<and> load_config_val ''CHROME_USER_DATA_DIR'' (Static PyNone) (Some TStr) None (Some [])
        (Some [(''HOME'', ''/root'')]) (Some [(''CHROME_USER_DATA_DIR'', [])])
      = Inr (PyStr [])
   \<and> Inr (PyStr []) \<noteq> (Inr PyNone :: error + pyval)"
  by code_simp

text \<open>
  \<^bold>\<open>C3\<close>, amended. For a typed key with default \<open>deflt\<close>: (1) if the config file holds a
  non-empty value \<open>F\<close> under the key's name and the environment holds none under that
  name, resolution yields \<open>F\<close> coerced; (2) if the environment holds a non-empty value
  \<open>E\<close> under the key's name, resolution yields \<open>E\<close> coerced, whatever the file holds;
  (3) if at least one source has entries and neither holds a non-empty value under any
  probed name, the outcome is decided by the last lookup made (in the file when it has
  entries, otherwise in the environment, under the last probed name): when it finds no
  entry, resolution yields the default, that is the value itself or the function applied
  to the snapshot so far; when it finds an entry, which is then the empty string, that
  string is coerced.
\<close>

theorem C3_precedence:
  "(dict_get config_file_vars key = Some F \<and> F \<noteq> [] \<and> \<not> str_truthy (dict_get env_vars key)
      \<longrightarrow> load_config_val key deflt (Some ty) aliases (Some snapshot) env_vars config_file_vars
            = coerce ty F)
   \<and> (dict_get env_vars key = Some E \<and> E \<noteq> []
      \<longrightarrow> load_config_val key deflt (Some ty) aliases (Some snapshot) env_vars config_file_vars
            = coerce ty E)
   \<and> ((dict_truthy env_vars \<or> dict_truthy config_file_vars)
       \<and> (\<forall>n\<in>set (key # (case aliases of None \<Rightarrow> [] | Some a \<Rightarrow> a)).
             \<not> str_truthy (dict_get env_vars n) \<and> \<not> str_truthy (dict_get config_file_vars n))
      \<longrightarrow> load_config_val key deflt (Some ty) aliases (Some snapshot) env_vars config_file_vars
            = (case (if dict_truthy config_file_vars
                     then dict_get config_file_vars
                            (last (key # (case aliases of None \<Rightarrow> [] | Some a \<Rightarrow> a)))
                     else dict_get env_vars
                            (last (key # (case aliases of None \<Rightarrow> [] | Some a \<Rightarrow> a)))) of
                 None \<Rightarrow> (case deflt of Static v \<Rightarrow> Inr v | Callable f \<Rightarrow> f snapshot)
               | Some s \<Rightarrow> coerce ty s))"
proof (intro conjI impI)
  assume a: "dict_get config_file_vars key = Some F \<and> F \<noteq> [] \<and> \<not> str_truthy (dict_get env_vars key)"
  then have "dict_truthy config_file_vars" by (auto dest: dict_get_truthy)
  with a show "load_config_val key deflt (Some ty) aliases (Some snapshot) env_vars config_file_vars
            = coerce ty F"
    by (simp add: load_config_val_def)
next
  assume a: "dict_get env_vars key = Some E \<and> E \<noteq> []"
  then have "dict_truthy env_vars" by (auto dest: dict_get_truthy)
  with a show "load_config_val key deflt (Some ty) aliases (Some snapshot) env_vars config_file_vars
            = coerce ty E"
    by (simp add: load_config_val_def)
next
  let ?names = "key # (case aliases of None \<Rightarrow> [] | Some a \<Rightarrow> a)"
  let ?last = "if dict_truthy config_file_vars then dict_get config_file_vars (last ?names)
               else dict_get env_vars (last ?names)"
  assume a: "(dict_truthy env_vars \<or> dict_truthy config_file_vars)
       \<and> (\<forall>n\<in>set ?names.
             \<not> str_truthy (dict_get env_vars n) \<and> \<not> str_truthy (dict_get config_file_vars n))"
  then have "probe env_vars config_file_vars ?names Unbound = Bound ?last"
    using probe_exhausted[of ?names env_vars config_file_vars Unbound] by (auto split: if_splits)
  then show "load_config_val key deflt (Some ty) aliases (Some snapshot) env_vars config_file_vars
            = (case ?last of
                 None \<Rightarrow> (case deflt of Static v \<Rightarrow> Inr v | Callable f \<Rightarrow> f snapshot)
               | Some s \<Rightarrow> coerce ty s)"
    by (simp add: load_config_val_def use_default_def split: dflt.splits option.splits)
qed

text \<open>The three parts on \<^verbatim>\<open>TIMEOUT\<close> (an \<^verbatim>\<open>int\<close> key, default 60); the third
  part also on \<^verbatim>\<open>USE_COLOR\<close>, whose default is a function of the snapshot, and on
  \<^verbatim>\<open>CHROME_USER_DATA_DIR\<close> with an empty string in the file.\<close>

theorem C3_precedence_witness:
  "load_config_val ''TIMEOUT'' (Static (PyInt 60)) (Some TInt) None (Some [])
       (Some [(''HOME'', ''/root'')]) (Some [(''TIMEOUT'', ''5'')]) = Inr (PyInt 5)
   \<and> load_config_val ''TIMEOUT'' (Static (PyInt 60)) (Some TInt) None (Some [])
       (Some [(''TIMEOUT'', ''7'')]) (Some [(''TIMEOUT'', ''5'')]) = Inr (PyInt 7)
   \<and> load_config_val ''TIMEOUT'' (Static (PyInt 60)) (Some TInt) None (Some [])
       (Some [(''HOME'', ''/root'')]) (Some [(''ONLY_NEW'', ''False'')]) = Inr (PyInt 60)
   \<and> load_config_val ''USE_COLOR'' (Callable (\<lambda>c. getitem c ''IS_TTY'')) (Some TBool) None
       (Some [(''IS_TTY'', PyBool True)]) (Some [(''HOME'', ''/root'')]) None = Inr (PyBool True)
   \<and> load_config_val ''CHROME_USER_DATA_DIR'' (Static PyNone) (Some TStr) None (Some [])
       (Some [(''HOME'', ''/root'')]) (Some [(''CHROME_USER_DATA_DIR'', [])]) = Inr (PyStr [])"
proof -
  have c5: "coerce TInt ''5'' = Inr (PyInt 5)" and c7: "coerce TInt ''7'' = Inr (PyInt 7)"
    and ce: "coerce TStr [] = Inr (PyStr [])"
    by code_simp+
  have g: "getitem [(''IS_TTY'', PyBool True)] ''IS_TTY'' = Inr (PyBool True)"
    by (simp add: getitem_def)
  show ?thesis
    using C3_precedence[of "Some [(''TIMEOUT'', ''5'')]" "''TIMEOUT''" "''5''"
            "Some [(''HOME'', ''/root'')]" "Static (PyInt 60)" TInt None "[]" "[]"]
          C3_precedence[of "Some [(''TIMEOUT'', ''5'')]" "''TIMEOUT''" "[]"
            "Some [(''TIMEOUT'', ''7'')]" "Static (PyInt 60)" TInt None "[]" "''7''"]
          C3_precedence[of "Some [(''ONLY_NEW'', ''False'')]" "''TIMEOUT''" "[]"
            "Some [(''HOME'', ''/root'')]" "Static (PyInt 60)" TInt None "[]" "[]"]
          C3_precedence[of None "''USE_COLOR''" "[]"
            "Some [(''HOME'', ''/root'')]" "Callable (\<lambda>c. getitem c ''IS_TTY'')" TBool None
            "[(''IS_TTY'', PyBool True)]" "[]"]
          C3_precedence[of "Some [(''CHROME_USER_DATA_DIR'', [])]" "''CHROME_USER_DATA_DIR''" "[]"
            "Some [(''HOME'', ''/root'')]" "Static PyNone" TStr None "[]" "[]"]
    by (simp add: c5 c7 ce g)
qed

text \<open>
  \<^bold>\<open>C4\<close> does not hold of the code. The loop takes the probed names one after the other
  and asks both sources for each, so the canonical name in the config file is found
  before the alias in the environment is looked at. \<^verbatim>\<open>SAVE_WGET\<close> has the alias
  \<^verbatim>\<open>FETCH_WGET\<close>; with \<^verbatim>\<open>FETCH_WGET=True\<close> in the environment and
  \<^verbatim>\<open>SAVE_WGET=False\<close> in the file, resolution yields the file's \<^verbatim>\<open>False\<close>. The
  module's own header (lines 27--31) puts environment variables before the config file.
\<close>

theorem C4_file_canonical_beats_env_alias:
  "load_config_val ''SAVE_WGET'' (Static (PyBool True)) (Some TBool) (Some [''FETCH_WGET''])
     (Some []) (Some [(''FETCH_WGET'', ''True'')]) (Some [(''SAVE_WGET'', ''False'')])
   = Inr (PyBool False)"
  by code_simp

text \<open>
  \<^bold>\<open>C8\<close>. When \<^verbatim>\<open>load_config_val\<close> is called for a typed key with both
  \<^verbatim>\<open>env_vars\<close> and \<^verbatim>\<open>config_file_vars\<close> empty or absent, the probe loop never assigns
  \<^verbatim>\<open>val\<close>, and the test \<^verbatim>\<open>val is None\<close> raises \<^verbatim>\<open>UnboundLocalError\<close>; the default is
  not used.
\<close>

theorem C8_unbound_local:
  assumes "env_vars = None \<or> env_vars = Some []"
      and "config_file_vars = None \<or> config_file_vars = Some []"
  shows "load_config_val key deflt (Some ty) aliases config env_vars config_file_vars
           = Inl UnboundLocalError"
proof -
  from assms have "\<not> dict_truthy env_vars" "\<not> dict_truthy config_file_vars" by auto
  then have "probe env_vars config_file_vars ks Unbound = Unbound" for ks
    by (rule probe_no_sources)
  then show ?thesis by (simp add: load_config_val_def)
qed

theorem C8_unbound_local_witness:
  "load_config_val ''TIMEOUT'' (Static (PyInt 60)) (Some TInt) None (Some []) (Some []) None
     = Inl UnboundLocalError"
  using C8_unbound_local[of "Some []" None] by simp

text \<open>The same seen from \<^verbatim>\<open>load_all_config\<close>: with an empty process environment and no
  config file, resolution stops at the first declared key with that error.\<close>

lemma load_all_config_empty_sources:
  assumes "environ w = []" and "files (config_path_of w None) = None"
  shows "load_all_config w files = Inl UnboundLocalError"
proof -
  have "load_config_file w files None = Inr None"
    using assms(2) by (simp add: load_config_file_def)
  moreover have "load_config_loop ((key, opt ty dv) # rest) c (Some []) None = Inl UnboundLocalError"
    for key ty dv rest c
    by (simp add: load_config_val_def opt_def probe_no_sources)
  ultimately show ?thesis
    using assms(1)
    by (simp add: load_all_config_def CONFIG_DEFAULTS_def load_config_def)
qed


section \<open>Properties of the \<^verbatim>\<open>json.loads\<close> model\<close>













section \<open>Properties of the derived pass\<close>

lemma load_config_loop_append:
  "load_config_loop (xs @ ys) c e f =
     (case load_config_loop xs c e f of Inl err \<Rightarrow> Inl err | Inr c' \<Rightarrow> load_config_loop ys c' e f)"
  by (induction xs arbitrary: c) (auto split: sum.splits)

lemma load_config_loop_other_keys:
  "load_config_loop ds c e f = Inr c' \<Longrightarrow> k \<notin> fst ` set ds \<Longrightarrow> map_of c' k = map_of c k"
proof (induction ds arbitrary: c)
  case Nil
  then show ?case by simp
next
  case (Cons a ds)
  obtain key d where a: "a = (key, d)" by (cases a)
  from Cons.prems a obtain v where
    v: "load_config_val key (d_default d) (d_type d) (d_aliases d) (Some c) e f = Inr v"
    and rest: "load_config_loop ds (AList.update key v c) e f = Inr c'"
    by (auto split: sum.splits)
  from Cons.prems a have "k \<noteq> key" "k \<notin> fst ` set ds" by auto
  with Cons.IH[OF rest] show ?case by (simp add: update_conv')
qed

lemma derived_val:
  "load_config_val key (d_default (derived_decl g)) (d_type (derived_decl g))
     (d_aliases (derived_decl g)) (Some s) e f = g s"
  by (simp add: load_config_val_def derived_decl_def use_default_def)

lemma fst_derived: "fst ` (\<lambda>(k, g). (k, derived_decl g)) ` A = fst ` A"
  by force

text \<open>
  \<^bold>\<open>C5\<close>. The derived pass evaluates the functions of \<^verbatim>\<open>DERIVED_CONFIG_DEFAULTS\<close> in
  declaration order on the accumulated snapshot. Let \<open>key\<close> be any derived key, \<open>f\<close>
  its function, \<open>pre\<close> the entries declared before it and \<open>post\<close> those after it.
  Whenever the pass over the whole table succeeds with the snapshot \<open>final\<close>, the pass
  over \<open>pre\<close> alone succeeds with a snapshot on which \<open>f\<close> is evaluated, and the value
  of \<open>f\<close> there is what \<open>final\<close> holds for \<open>key\<close>. In that snapshot every key of \<open>pre\<close>
  already has its final value, and every other key has the value the base pass gave it.
  (A Python dict has each key once: the keys of the table are distinct.)
\<close>

theorem C5_derived_order:
  assumes "derived_fns w = pre @ (key, f) # post"
      and "distinct (map fst (derived_fns w))"
      and "load_config w files (DERIVED_CONFIG_DEFAULTS w) (Some base) out_dir env_vars
             config_file_vars = Inr final"
  shows "\<exists>snapshot v.
           load_config w files (map (\<lambda>(k, g). (k, derived_decl g)) pre) (Some base) out_dir
             env_vars config_file_vars = Inr snapshot
         \<and> f snapshot = Inr v
         \<and> map_of final key = Some v
         \<and> (\<forall>k\<in>fst ` set pre. map_of snapshot k = map_of final k)
         \<and> (\<forall>k. k \<notin> fst ` set pre \<longrightarrow> map_of snapshot k = map_of base k)"
proof -
  let ?D = "map (\<lambda>(k, g). (k, derived_decl g))"
  let ?env = "if dict_truthy env_vars then env_vars else Some (environ w)"
  have tbl: "DERIVED_CONFIG_DEFAULTS w = ?D pre @ (key, derived_decl f) # ?D post"
    by (simp add: DERIVED_CONFIG_DEFAULTS_def assms(1))
  from assms(3) obtain cfv where
    src: "(if dict_truthy config_file_vars then Inr config_file_vars
           else load_config_file w files out_dir) = Inr cfv"
    and run: "load_config_loop (DERIVED_CONFIG_DEFAULTS w) base ?env cfv = Inr final"
    by (auto simp: load_config_def Let_def split: sum.splits)
  from run obtain snapshot where
    pre: "load_config_loop (?D pre) base ?env cfv = Inr snapshot"
    and tail: "load_config_loop ((key, derived_decl f) # ?D post) snapshot ?env cfv = Inr final"
    unfolding tbl load_config_loop_append by (auto split: sum.splits)
  from tail obtain v where
    v: "f snapshot = Inr v"
    and post: "load_config_loop (?D post) (AList.update key v snapshot) ?env cfv = Inr final"
    by (auto simp: derived_val split: sum.splits)
  from assms(1,2) have d1: "key \<notin> fst ` set post" and d2: "key \<notin> fst ` set pre"
    and d3: "fst ` set pre \<inter> fst ` set post = {}"
    by auto
  have fin: "map_of final k = map_of (AList.update key v snapshot) k" if "k \<notin> fst ` set post" for k
    using load_config_loop_other_keys[OF post, of k] that by (simp add: fst_derived)
  have "load_config w files (?D pre) (Some base) out_dir env_vars config_file_vars = Inr snapshot"
    using src pre by (simp add: load_config_def Let_def)
  moreover have "map_of final key = Some v"
    using fin[OF d1] by (simp add: update_conv')
  moreover have "\<forall>k\<in>fst ` set pre. map_of snapshot k = map_of final k"
  proof
    fix k assume k: "k \<in> fst ` set pre"
    with d2 d3 have "k \<noteq> key" "k \<notin> fst ` set post" by auto
    then show "map_of snapshot k = map_of final k"
      using fin[of k] by (simp add: update_conv')
  qed
  moreover have "\<forall>k. k \<notin> fst ` set pre \<longrightarrow> map_of snapshot k = map_of base k"
    using load_config_loop_other_keys[OF pre] by (simp add: fst_derived)
  ultimately show ?thesis using v by blast
qed

text \<open>On the curl entries of the table, with a base snapshot in which \<^verbatim>\<open>USE_CURL\<close> is
  on and the three methods that need curl are off. The key is \<^verbatim>\<open>SAVE_FAVICON\<close>, the
  third entry (\<open>curl_derived ! 2\<close>); before it come \<^verbatim>\<open>USE_CURL\<close> and
  \<^verbatim>\<open>CURL_ARGS\<close> (\<open>take 2 curl_derived\<close>). Its function is computed on the snapshot
  in which the derived \<^verbatim>\<open>USE_CURL\<close> is already off.\<close>

theorem C5_derived_order_witness:
  "\<exists>snapshot v.
     load_config example_world example_files
       (map (\<lambda>(k, g). (k, derived_decl g)) (take 2 curl_derived))
       (Some example_base) None None None = Inr snapshot
   \<and> snd (curl_derived ! 2) snapshot = Inr v
   \<and> map_of example_final ''SAVE_FAVICON'' = Some v
   \<and> (\<forall>k\<in>fst ` set (take 2 curl_derived). map_of snapshot k = map_of example_final k)
   \<and> (\<forall>k. k \<notin> fst ` set (take 2 curl_derived) \<longrightarrow> map_of snapshot k = map_of example_base k)"
proof -
  have h1: "derived_fns example_world
      = take 2 curl_derived @ (''SAVE_FAVICON'', snd (curl_derived ! 2)) # drop 3 curl_derived"
    by (simp add: example_world_def curl_derived_def)
  have h2: "distinct (map fst (derived_fns example_world))"
    by (simp add: example_world_def curl_derived_def)
  have h3: "load_config example_world example_files (DERIVED_CONFIG_DEFAULTS example_world)
        (Some example_base) None None None = Inr example_final"
    by code_simp
  show ?thesis by (rule C5_derived_order[OF h1 h2 h3])
qed

section \<open>Properties of \<^verbatim>\<open>write_config_file\<close>\<close>

lemma bak_neq_config: "bak_path_of w out_dir \<noteq> config_path_of w out_dir"
  by (simp add: bak_path_of_def)

lemma persist_written:
  assumes "persist_config_file w config out_dir files = (Inr config_file, files3)"
  shows "\<exists>contents. (case files (config_path_of w out_dir) of None \<Rightarrow> CONFIG_HEADER | Some old \<Rightarrow> old) = contents
         \<and> files3 = files(bak_path_of w out_dir \<mapsto> contents,
                          config_path_of w out_dir \<mapsto> cp_write w config_file)"
  using assms
  by (auto simp: persist_config_file_def atomic_write_def Let_def bak_neq_config fun_upd_twist
           split: option.splits sum.splits if_splits)

lemma example_paths:
  "config_path_of example_world None = ''./ArchiveBox.conf''"
  "bak_path_of example_world None = ''./ArchiveBox.conf.bak''"
  by (simp_all add: bak_path_of_def config_path_of_def example_world_def CONFIG_FILENAME_def)



lemma find_section_undeclared:
  assumes "\<forall>(name, opts) \<in> set table. key \<notin> fst ` set opts"
  shows "find_section table key = Inl IndexError"
proof -
  from assms have "filter (\<lambda>(name, opts). key \<in> set (map fst opts)) table = []"
    by (auto simp: filter_empty_conv)
  then show ?thesis by (simp add: find_section_def)
qed

lemma find_section_error: "find_section table k = Inl e \<Longrightarrow> e = IndexError"
  by (auto simp: find_section_def split: list.splits)

lemma upsert_undeclared:
  "key \<in> fst ` set config \<Longrightarrow> find_section table key = Inl IndexError \<Longrightarrow>
   upsert_assignments table config config_file = Inl IndexError"
proof (induction config arbitrary: config_file)
  case Nil
  then show ?case by simp
next
  case (Cons a config)
  obtain k v where a: "a = (k, v)" by (cases a)
  show ?case
  proof (cases "find_section table k")
    case (Inl e)
    then have "e = IndexError" by (rule find_section_error)
    with Inl a show ?thesis by simp
  next
    case (Inr sect)
    with Cons.prems a have "key \<in> fst ` set config" by auto
    with Cons.IH Cons.prems(2) Inr a show ?thesis by (simp add: Let_def)
  qed
qed

text \<open>
  \<^bold>\<open>C9\<close>. If one of the assigned keys is declared in no section of
  \<^verbatim>\<open>CONFIG_DEFAULTS\<close> (and the file as it stands can be parsed), \<^verbatim>\<open>find_section\<close>
  raises \<^verbatim>\<open>IndexError\<close> out of \<^verbatim>\<open>write_config_file\<close>. At that point the backup
  has been written and is left on disk, nothing is restored or removed, and the config
  file still holds exactly what the backup holds: its text from before the call, or the
  header if the call had to create the file.
\<close>

theorem C9_unknown_key:
  assumes "key \<in> fst ` set config"
      and "\<forall>(name, opts) \<in> set (CONFIG_DEFAULTS (isatty w)). key \<notin> fst ` set opts"
      and "contents = (case files (config_path_of w out_dir) of
                         None \<Rightarrow> CONFIG_HEADER | Some old \<Rightarrow> old)"
      and "cp_read w contents = Inr config_file"
  shows "write_config_file w config out_dir files
           = (Inl IndexError,
              files(config_path_of w out_dir \<mapsto> contents, bak_path_of w out_dir \<mapsto> contents))
         \<and> snd (write_config_file w config out_dir files) (bak_path_of w out_dir) = Some contents
         \<and> snd (write_config_file w config out_dir files) (config_path_of w out_dir) = Some contents"
proof -
  have up: "upsert_assignments (CONFIG_DEFAULTS (isatty w)) config config_file = Inl IndexError"
    using assms(1) find_section_undeclared[OF assms(2)] by (rule upsert_undeclared)
  have same: "files(config_path_of w out_dir \<mapsto> contents) = files"
    if "files (config_path_of w out_dir) = Some old" for old
    using that assms(3) by (auto simp: fun_eq_iff)
  have "persist_config_file w config out_dir files
          = (Inl IndexError,
             files(config_path_of w out_dir \<mapsto> contents, bak_path_of w out_dir \<mapsto> contents))"
    using assms(3,4) up same
    by (auto simp: persist_config_file_def atomic_write_def Let_def split: option.splits)
  then show ?thesis
    using bak_neq_config[of w out_dir] by (simp add: write_config_file_def)
qed

text \<open>Assigning \<^verbatim>\<open>TIMEOUT\<close> and \<^verbatim>\<open>VERSION\<close>, which only
  \<^verbatim>\<open>DERIVED_CONFIG_DEFAULTS\<close> declares: the call ends in \<^verbatim>\<open>IndexError\<close>, the backup
  stays and the config file is as before.\<close>

theorem C9_unknown_key_witness:
  "write_config_file example_world [(''TIMEOUT'', ''5''), (''VERSION'', ''0.4.21'')] None example_files
     = (Inl IndexError,
        example_files(''./ArchiveBox.conf.bak'' \<mapsto>
          ini_write [(''GENERAL_CONFIG'', [(''TIMEOUT'', ''60'')])]))
   \<and> snd (write_config_file example_world [(''TIMEOUT'', ''5''), (''VERSION'', ''0.4.21'')] None
            example_files) ''./ArchiveBox.conf''
       = Some (ini_write [(''GENERAL_CONFIG'', [(''TIMEOUT'', ''60'')])])"
proof -
  let ?old = "ini_write [(''GENERAL_CONFIG'', [(''TIMEOUT'', ''60'')])]"
  let ?config = "[(''TIMEOUT'', ''5''), (''VERSION'', ''0.4.21'')]"
  have h1: "''VERSION'' \<in> fst ` set ?config" by simp
  have h2: "\<forall>(name, opts) \<in> set (CONFIG_DEFAULTS (isatty example_world)). ''VERSION'' \<notin> fst ` set opts"
    by code_simp
  have h3: "?old = (case example_files (config_path_of example_world None) of
           None \<Rightarrow> CONFIG_HEADER | Some old \<Rightarrow> old)"
    by (simp only: example_paths) (simp add: example_files_def)
  have h4: "cp_read example_world ?old = Inr [(''GENERAL_CONFIG'', [(''TIMEOUT'', ''60'')])]"
    by code_simp
  have same: "example_files(''./ArchiveBox.conf'' \<mapsto> ?old) = example_files"
    by (auto simp: example_files_def)
  have r: "write_config_file example_world ?config None example_files
           = (Inl IndexError,
              example_files(config_path_of example_world None \<mapsto> ?old,
                            bak_path_of example_world None \<mapsto> ?old))
         \<and> snd (write_config_file example_world ?config None example_files)
               (bak_path_of example_world None) = Some ?old
         \<and> snd (write_config_file example_world ?config None example_files)
               (config_path_of example_world None) = Some ?old"
    by (rule C9_unknown_key[where w=example_world and files=example_files and out_dir=None, OF h1 h2 h3 h4])
  from r[unfolded example_paths same] show ?thesis by blast
qed








text \<open>Whenever validation succeeds, the function returns the requested values and leaves
  the files as they were written, backup included.\<close>

lemma backup_kept_on_success:
  assumes "persist_config_file w config out_dir files = (Inr config_file, files3)"
      and "load_all_config w files3 = Inr CONFIG"
  shows "write_config_file w config out_dir files = (Inr (requested_values config CONFIG), files3)
         \<and> files3 (bak_path_of w out_dir) \<noteq> None"
  using assms persist_written[OF assms(1)]
  by (auto simp: write_config_file_def bak_neq_config)

text \<open>
  \<^bold>\<open>C2\<close> does not hold of the code. When validation succeeds the function returns from
  inside the \<^verbatim>\<open>try\<close> block (line 473) and never reaches the removal of the backup
  (lines 482--483). Writing \<^verbatim>\<open>TIMEOUT=5\<close> into a file that holds \<^verbatim>\<open>TIMEOUT = 60\<close>
  returns the resolved value for the requested key, and the backup file is still on disk
  with the old text.
\<close>

theorem C2_backup_left_on_success:
  "fst (write_config_file example_world [(''TIMEOUT'', ''5'')] None example_files)
     = Inr [(''TIMEOUT'', PyInt 5)]
   \<and> snd (write_config_file example_world [(''TIMEOUT'', ''5'')] None example_files)
       ''./ArchiveBox.conf.bak''
     = Some (ini_write [(''GENERAL_CONFIG'', [(''TIMEOUT'', ''60'')])])"
  by code_simp

section \<open>Coercion of list-typed keys\<close>




end
